theory Spec2Isabelle
  imports Complex_Main "HOL-Library.AList"
begin

section \<open>JavaScript values and objects\<close>

text \<open>
  The handlers of \<^verbatim>\<open>src/api/index.ts\<close> work on the parsed JSON body of a request.
  A JavaScript value is one of the JSON values, \<^verbatim>\<open>undefined\<close> (what reading a
  missing property gives) or a \<^verbatim>\<open>Date\<close> (what \<^verbatim>\<open>new Date()\<close> gives, as
  milliseconds since the epoch). An object is the list of its properties in insertion
  order. A number carries the value of a finite double, as a rational: the handlers only
  test a number for being zero. The body of an update is taken to be an object.
\<close>

datatype jsval =
    JUndefined
  | JNull
  | JBool bool
  | JNum rat
  | JStr string
  | JDate nat
  | JArr "jsval list"
  | JObj "(string \<times> jsval) list"

type_synonym doc = "(string \<times> jsval) list"

text \<open>Truthiness, as \<^verbatim>\<open>if (x)\<close>, \<^verbatim>\<open>!x\<close>, \<^verbatim>\<open>x && y\<close> and \<^verbatim>\<open>x || y\<close> test it.\<close>

fun truthy :: "jsval \<Rightarrow> bool" where
  "truthy JUndefined = False"
| "truthy JNull = False"
| "truthy (JBool b) = b"
| "truthy (JNum n) = (n \<noteq> 0)"
| "truthy (JStr s) = (s \<noteq> [])"
| "truthy (JDate t) = True"
| "truthy (JArr xs) = True"
| "truthy (JObj d) = True"

text \<open>Reading a property, \<^verbatim>\<open>obj.k\<close>: \<^verbatim>\<open>undefined\<close> when the object has no such key.\<close>

definition get_prop :: "doc \<Rightarrow> string \<Rightarrow> jsval" where
  "get_prop obj k = (case map_of obj k of None \<Rightarrow> JUndefined | Some v \<Rightarrow> v)"

text \<open>
  Optional chaining, \<^verbatim>\<open>x?.k\<close>: \<^verbatim>\<open>undefined\<close> on \<^verbatim>\<open>null\<close> and \<^verbatim>\<open>undefined\<close>; a
  property read otherwise, which finds nothing under a reviewer's name on a string, a
  number, a boolean or an array.
\<close>

fun opt_prop :: "jsval \<Rightarrow> string \<Rightarrow> jsval" where
  "opt_prop (JObj d) k = get_prop d k"
| "opt_prop v k = JUndefined"

text \<open>\<^verbatim>\<open>x || y\<close>\<close>

definition js_or :: "jsval \<Rightarrow> jsval \<Rightarrow> jsval" where
  "js_or x y = (if truthy x then x else y)"

text \<open>\<^verbatim>\<open>Array.isArray(x)\<close>\<close>

fun isArray :: "jsval \<Rightarrow> bool" where
  "isArray (JArr xs) = True"
| "isArray v = False"

text \<open>\<^verbatim>\<open>s.startsWith(p)\<close>\<close>

fun startsWith :: "string \<Rightarrow> string \<Rightarrow> bool" where
  "startsWith s [] = True"
| "startsWith [] (p # ps) = False"
| "startsWith (c # cs) (p # ps) = (c = p \<and> startsWith cs ps)"

section \<open>The store's interface\<close>

text \<open>
  What a \<^verbatim>\<open>catch\<close> block can receive: an \<^verbatim>\<open>Error\<close> with its message, a
  \<^verbatim>\<open>MongoServerError\<close> (an \<^verbatim>\<open>Error\<close> too) with its code and message, or a value
  that is no \<^verbatim>\<open>Error\<close>.
\<close>

datatype thrown =
    ErrorObj string
  | MongoServerError nat string
  | NonError

text \<open>
  An \<^verbatim>\<open>ObjectId\<close> is represented by its hexadecimal string, which is what its
  \<^verbatim>\<open>toString()\<close> returns. \<^verbatim>\<open>ObjectId.isValid\<close> and the constructor
  \<^verbatim>\<open>new ObjectId(id)\<close> belong to the driver; the handlers take them as parameters.
\<close>

type_synonym oid = string

text \<open>The operations a handler issues to the \<^verbatim>\<open>products\<close> collection, in order.\<close>

datatype store_call =
    UpdateOne oid doc
  | InsertOne doc

record response =
  status :: nat
  body :: jsval

definition error_body :: "string \<Rightarrow> jsval" where
  "error_body msg = JObj [(''error'', JStr msg)]"

section \<open>PUT /api/products/:id\<close>

text \<open>
  The handler of \<^verbatim>\<open>app.put("/api/products/:id", ...)\<close>. Its parameters are the
  driver's \<^verbatim>\<open>ObjectId.isValid\<close> and \<^verbatim>\<open>ObjectId\<close> constructor, the collection's
  \<^verbatim>\<open>updateOne\<close> with a \<^verbatim>\<open>$set\<close> document (it throws, or reports
  \<^verbatim>\<open>matchedCount\<close>, and leaves a new store), the time \<^verbatim>\<open>new Date()\<close> reads, the
  \<^verbatim>\<open>id\<close> of the route (\<open>ident\<close> here) and the request's body. It returns
  the response (its status and the value handed to \<^verbatim>\<open>res.json\<close>), the store
  operations it issued, and the store. A response sent with \<^verbatim>\<open>res.json\<close> alone has
  status 200. Whatever the \<^verbatim>\<open>try\<close> block throws reaches the one \<^verbatim>\<open>catch\<close>.
\<close>

definition put_product ::
  "(string \<Rightarrow> bool) \<Rightarrow> (string \<Rightarrow> oid) \<Rightarrow> (oid \<Rightarrow> doc \<Rightarrow> 'st \<Rightarrow> (thrown + nat) \<times> 'st) \<Rightarrow>
   nat \<Rightarrow> string \<Rightarrow> doc \<Rightarrow> 'st \<Rightarrow> response \<times> store_call list \<times> 'st" where
  "put_product isValid ObjectId updateOne now ident updates st =
    (if \<not> isValid ident then
       (\<lparr>status = 400, body = error_body ''Invalid product ID format''\<rparr>, [], st)
     else if truthy (get_prop updates ''comment'') \<and> \<not> truthy (get_prop updates ''ratings'') then
       (let set_doc = [(''comment'', get_prop updates ''comment''), (''lastModifiedAt'', JDate now)];
            calls = [UpdateOne (ObjectId ident) set_doc]
        in case updateOne (ObjectId ident) set_doc st of
             (Inl e, st') \<Rightarrow>
               (\<lparr>status = 500, body = error_body ''Internal server error''\<rparr>, calls, st')
           | (Inr matchedCount, st') \<Rightarrow>
               if matchedCount = 0 then
                 (\<lparr>status = 404, body = error_body ''Product not found''\<rparr>, calls, st')
               else
                 (\<lparr>status = 200,
                   body = JObj [(''message'', JStr ''Comment updated successfully''),
                                (''product'', JObj set_doc)]\<rparr>, calls, st'))
     else
       (let isUpdatingRatings = list_ex (\<lambda>key. startsWith key ''ratings.'') (map fst updates)
        in if \<not> isUpdatingRatings then
             (\<lparr>status = 400, body = error_body ''Rating is required for product updates''\<rparr>, [], st)
           else
             (let updates' = AList.update ''lastModifiedAt'' (JDate now) updates;
                  calls = [UpdateOne (ObjectId ident) updates']
              in case updateOne (ObjectId ident) updates' st of
                   (Inl e, st') \<Rightarrow>
                     (\<lparr>status = 500, body = error_body ''Internal server error''\<rparr>, calls, st')
                 | (Inr matchedCount, st') \<Rightarrow>
                     if matchedCount = 0 then
                       (\<lparr>status = 404, body = error_body ''Product not found''\<rparr>, calls, st')
                     else
                       (\<lparr>status = 200,
                         body = JObj [(''message'', JStr ''Product updated successfully''),
                                      (''product'', JObj updates')]\<rparr>, calls, st'))))"

text \<open>An identifier format for concrete runs: 24 hexadecimal digits.\<close>

definition hex_digit :: "char \<Rightarrow> bool" where
  "hex_digit c = (c \<in> set ''0123456789abcdefABCDEF'')"

definition isValid_hex24 :: "string \<Rightarrow> bool" where
  "isValid_hex24 s = (length s = 24 \<and> list_all hex_digit s)"

section \<open>POST /api/products\<close>

text \<open>
  The handler of \<^verbatim>\<open>app.post("/api/products", ...)\<close>. \<^verbatim>\<open>insertOne\<close> throws or
  returns the inserted id. The response spreads the product and sets \<^verbatim>\<open>_id\<close> to the
  id's string. \<open>new_product\<close> is the object the handler builds in \<^verbatim>\<open>product\<close>.
\<close>

definition new_product :: "doc \<Rightarrow> nat \<Rightarrow> doc" where
  "new_product req_body now =
     [(''name'', get_prop req_body ''name''),
      (''imageUrls'', get_prop req_body ''imageUrls''),
      (''ratings'', JObj
         [(''nifar'', js_or (opt_prop (get_prop req_body ''ratings'') ''nifar'') (JNum 0)),
          (''afia'', js_or (opt_prop (get_prop req_body ''ratings'') ''afia'') (JNum 0)),
          (''sijil'', js_or (opt_prop (get_prop req_body ''ratings'') ''sijil'') (JNum 0)),
          (''naim'', js_or (opt_prop (get_prop req_body ''ratings'') ''naim'') (JNum 0))]),
      (''comment'', js_or (get_prop req_body ''comment'') (JStr [])),
      (''createdAt'', JDate now)]"

definition post_product ::
  "(doc \<Rightarrow> 'st \<Rightarrow> (thrown + oid) \<times> 'st) \<Rightarrow> nat \<Rightarrow> doc \<Rightarrow> 'st \<Rightarrow>
   response \<times> store_call list \<times> 'st" where
  "post_product insertOne now req_body st =
    (if \<not> truthy (get_prop req_body ''name'') \<or> \<not> isArray (get_prop req_body ''imageUrls'') then
       (\<lparr>status = 400, body = error_body ''Missing required fields: name and imageUrls''\<rparr>, [], st)
     else
       (let product = new_product req_body now;
            calls = [InsertOne product]
        in case insertOne product st of
             (Inl (MongoServerError code msg), st') \<Rightarrow>
               if code = 11000 then
                 (\<lparr>status = 409, body = error_body ''Product with this ID already exists''\<rparr>,
                  calls, st')
               else (\<lparr>status = 500, body = error_body msg\<rparr>, calls, st')
           | (Inl (ErrorObj msg), st') \<Rightarrow> (\<lparr>status = 500, body = error_body msg\<rparr>, calls, st')
           | (Inl NonError, st') \<Rightarrow>
               (\<lparr>status = 500, body = error_body ''Unknown error occurred''\<rparr>, calls, st')
           | (Inr insertedId, st') \<Rightarrow>
               (\<lparr>status = 201, body = JObj (AList.update ''_id'' (JStr insertedId) product)\<rparr>,
                calls, st')))"

section \<open>The document store\<close>

text \<open>
  The \<^verbatim>\<open>products\<close> collection is MongoDB's, reached through its driver; neither is
  code of the repository. The model below is the part of their documented behaviour the
  handlers rely on. A collection maps each \<^verbatim>\<open>_id\<close> to the other fields of its
  document.

  \<^verbatim>\<open>updateOne({_id: oid}, {$set: set_doc})\<close>: each field name of \<open>set_doc\<close> is a path,
  its components separated by dots. A path with an empty component is refused, and so
  are two paths of which one is a prefix of the other (a conflict), both before any
  document is looked up. With no document under \<open>oid\<close> nothing is matched. Otherwise
  the fields are set one by one: a missing field is added at the end (with the embedded
  documents the rest of the path names), an existing one is replaced in place, a path
  goes through embedded documents and array positions, and it cannot go through any
  other value. A path that starts at \<^verbatim>\<open>_id\<close> is refused: no value of a JSON body
  equals the \<^verbatim>\<open>ObjectId\<close> stored there. A refused update changes nothing.
  Fields are set in the order of \<open>set_doc\<close>, which decides only where several new
  fields are placed; the theorems read a document by field name. A component that starts
  with a dollar sign is a field name like any other here.
\<close>

type_synonym store = "oid \<Rightarrow> doc option"

fun split_dots :: "string \<Rightarrow> string list" where
  "split_dots [] = [[]]"
| "split_dots (c # cs) =
     (if c = CHR ''.'' then [] # split_dots cs
      else (case split_dots cs of [] \<Rightarrow> [[c]] | p # ps \<Rightarrow> (c # p) # ps))"

fun nest :: "string list \<Rightarrow> jsval \<Rightarrow> jsval" where
  "nest [] v = v"
| "nest (k # ks) v = JObj [(k, nest ks v)]"

definition digit :: "char \<Rightarrow> bool" where
  "digit c = (c \<in> set ''0123456789'')"

definition array_index :: "string \<Rightarrow> nat option" where
  "array_index s =
     (if s \<noteq> [] \<and> list_all digit s
      then Some (foldl (\<lambda>n c. 10 * n + (of_char c - 48)) 0 s) else None)"

fun set_in :: "string list \<Rightarrow> jsval \<Rightarrow> jsval \<Rightarrow> thrown + jsval" where
  "set_in [] v cur = Inr v"
| "set_in (k # ks) v (JObj d) =
     (case map_of d k of
        None \<Rightarrow> Inr (JObj (d @ [(k, nest ks v)]))
      | Some c \<Rightarrow>
          (case set_in ks v c of
             Inl e \<Rightarrow> Inl e
           | Inr c' \<Rightarrow> Inr (JObj (AList.update k c' d))))"
| "set_in (k # ks) v (JArr xs) =
     (case array_index k of
        None \<Rightarrow> Inl (MongoServerError 28 ''Cannot create field in element'')
      | Some i \<Rightarrow>
          if i < length xs then
            (case set_in ks v (xs ! i) of
               Inl e \<Rightarrow> Inl e
             | Inr c' \<Rightarrow> Inr (JArr (xs[i := c'])))
          else Inr (JArr (xs @ replicate (i - length xs) JNull @ [nest ks v])))"
| "set_in (k # ks) v cur = Inl (MongoServerError 28 ''Cannot create field in element'')"

fun apply_set :: "(string list \<times> jsval) list \<Rightarrow> jsval \<Rightarrow> thrown + jsval" where
  "apply_set [] cur = Inr cur"
| "apply_set ((p, v) # rest) cur =
     (case set_in p v cur of Inl e \<Rightarrow> Inl e | Inr cur' \<Rightarrow> apply_set rest cur')"

fun is_prefix :: "string list \<Rightarrow> string list \<Rightarrow> bool" where
  "is_prefix [] q = True"
| "is_prefix (a # p) [] = False"
| "is_prefix (a # p) (b # q) = (a = b \<and> is_prefix p q)"

definition conflicting :: "string list \<Rightarrow> string list \<Rightarrow> bool" where
  "conflicting p q = (is_prefix p q \<or> is_prefix q p)"

fun conflict_free :: "string list list \<Rightarrow> bool" where
  "conflict_free [] = True"
| "conflict_free (p # ps) = (list_all (\<lambda>q. \<not> conflicting p q) ps \<and> conflict_free ps)"

definition valid_path :: "string list \<Rightarrow> bool" where
  "valid_path p = (p \<noteq> [] \<and> list_all (\<lambda>c. c \<noteq> []) p)"

definition mongo_updateOne :: "oid \<Rightarrow> doc \<Rightarrow> store \<Rightarrow> (thrown + nat) \<times> store" where
  "mongo_updateOne oid set_doc st =
     (let paths = map (\<lambda>(k, v). (split_dots k, v)) set_doc in
      if \<not> list_all valid_path (map fst paths) then
        (Inl (MongoServerError 56 ''The update path contains an empty field name''), st)
      else if \<not> conflict_free (map fst paths) then
        (Inl (MongoServerError 40 ''Updating the path would create a conflict''), st)
      else
        (case st oid of
           None \<Rightarrow> (Inr 0, st)
         | Some d \<Rightarrow>
             if list_ex (\<lambda>p. hd p = ''_id'') (map fst paths) then
               (Inl (MongoServerError 66 ''Update would modify the immutable field _id''), st)
             else
               (case apply_set paths (JObj d) of
                  Inl e \<Rightarrow> (Inl e, st)
                | Inr (JObj d') \<Rightarrow> (Inr 1, st(oid \<mapsto> d'))
                | Inr other \<Rightarrow> (Inl NonError, st))))"

text \<open>
  \<^verbatim>\<open>insertOne(product)\<close>: the driver gives the document a new \<^verbatim>\<open>ObjectId\<close>,
  \<open>new_id\<close>; the collection refuses an id it already holds with error 11000.
\<close>

definition mongo_insertOne :: "oid \<Rightarrow> doc \<Rightarrow> store \<Rightarrow> (thrown + oid) \<times> store" where
  "mongo_insertOne new_id d st =
     (case st new_id of
        Some d0 \<Rightarrow> (Inl (MongoServerError 11000 ''E11000 duplicate key error''), st)
      | None \<Rightarrow> (Inr new_id, st(new_id \<mapsto> d)))"

section \<open>Product states\<close>

text \<open>The reviewers of \<^verbatim>\<open>src/api/types.ts\<close>, interface \<^verbatim>\<open>Rating\<close>.\<close>

definition reviewers :: "string list" where
  "reviewers = [''nifar'', ''afia'', ''sijil'', ''naim'']"

text \<open>A product whose \<^verbatim>\<open>ratings\<close> is an object with exactly the four reviewers' keys.\<close>

definition four_reviewers :: "doc \<Rightarrow> bool" where
  "four_reviewers d =
     (case map_of d ''ratings'' of
        Some (JObj r) \<Rightarrow> map fst r = reviewers
      | other \<Rightarrow> False)"

text \<open>
  An update document that addresses no key of \<^verbatim>\<open>ratings\<close> but the four reviewers':
  each field name that starts at \<^verbatim>\<open>ratings\<close> goes on with a reviewer.
\<close>

definition reviewer_path :: "string list \<Rightarrow> bool" where
  "reviewer_path p =
     (case p of
        f # r # rest \<Rightarrow> if f = ''ratings'' then r \<in> set reviewers else True
      | [f] \<Rightarrow> f \<noteq> ''ratings''
      | [] \<Rightarrow> True)"

definition reviewer_fields_only :: "doc \<Rightarrow> bool" where
  "reviewer_fields_only updates = list_all (\<lambda>key. reviewer_path (split_dots key)) (map fst updates)"

text \<open>
  A request to one of the two handlers: a creation, with the \<^verbatim>\<open>ObjectId\<close> the driver
  gives the new document, the time and the body; an update, with the time, the id of the
  route and the body. \<open>serve\<close> is the collection a request leaves, \<open>serve_all\<close> the
  collection a sequence of requests leaves.
\<close>

datatype request =
    Create oid nat doc
  | Update nat string doc

fun serve :: "(string \<Rightarrow> bool) \<Rightarrow> (string \<Rightarrow> oid) \<Rightarrow> request \<Rightarrow> store \<Rightarrow> store" where
  "serve isValid ObjectId (Create new_id now req_body) st =
     snd (snd (post_product (mongo_insertOne new_id) now req_body st))"
| "serve isValid ObjectId (Update now ident updates) st =
     snd (snd (put_product isValid ObjectId mongo_updateOne now ident updates st))"

fun serve_all ::
  "(string \<Rightarrow> bool) \<Rightarrow> (string \<Rightarrow> oid) \<Rightarrow> request list \<Rightarrow> store \<Rightarrow> store" where
  "serve_all isValid ObjectId [] st = st"
| "serve_all isValid ObjectId (r # rs) st =
     serve_all isValid ObjectId rs (serve isValid ObjectId r st)"

text \<open>A request that addresses no key of \<^verbatim>\<open>ratings\<close> but the four reviewers'.\<close>

fun reviewer_request :: "request \<Rightarrow> bool" where
  "reviewer_request (Create new_id now req_body) = True"
| "reviewer_request (Update now ident updates) = reviewer_fields_only updates"

section \<open>Notions for the theorems\<close>

text \<open>
  The test of the handler's first branch, \<^verbatim>\<open>updates.comment && !updates.ratings\<close>, and
  the \<^verbatim>\<open>$set\<close> document the handler builds: \<^verbatim>\<open>updateDoc.$set\<close> in the first
  branch, \<^verbatim>\<open>updates\<close> with \<^verbatim>\<open>lastModifiedAt\<close> assigned in the second.
\<close>

definition comment_only :: "doc \<Rightarrow> bool" where
  "comment_only updates =
     (truthy (get_prop updates ''comment'') \<and> \<not> truthy (get_prop updates ''ratings''))"

definition set_document :: "doc \<Rightarrow> nat \<Rightarrow> doc" where
  "set_document updates now =
     (if comment_only updates
      then [(''comment'', get_prop updates ''comment''), (''lastModifiedAt'', JDate now)]
      else AList.update ''lastModifiedAt'' (JDate now) updates)"

text \<open>A product for concrete runs, as the creation handler stores it at time 1.\<close>

definition example_id :: string where
  "example_id = ''507f1f77bcf86cd799439011''"

definition example_product :: doc where
  "example_product =
     [(''name'', JStr ''tea''), (''imageUrls'', JArr []),
      (''ratings'', JObj [(''nifar'', JNum 0), (''afia'', JNum 0), (''sijil'', JNum 0),
                          (''naim'', JNum 0)]),
      (''comment'', JStr []), (''createdAt'', JDate 1)]"

lemmas run_defs =
  put_product_def post_product_def new_product_def mongo_updateOne_def mongo_insertOne_def
  get_prop_def js_or_def error_body_def valid_path_def conflicting_def Let_def
  comment_only_def set_document_def
  example_id_def example_product_def isValid_hex24_def hex_digit_def

section \<open>The handler as one store call\<close>

lemma example_id_valid: "isValid_hex24 example_id"
  by (simp add: isValid_hex24_def example_id_def hex_digit_def)

lemma put_issues_update:
  assumes "isValid ident"
    and "comment_only updates \<or> list_ex (\<lambda>key. startsWith key ''ratings.'') (map fst updates)"
  shows "put_product isValid ObjectId updateOne now ident updates st =
     (case updateOne (ObjectId ident) (set_document updates now) st of
        (Inl e, st') \<Rightarrow>
          (\<lparr>status = 500, body = error_body ''Internal server error''\<rparr>,
           [UpdateOne (ObjectId ident) (set_document updates now)], st')
      | (Inr matchedCount, st') \<Rightarrow>
          if matchedCount = 0 then
            (\<lparr>status = 404, body = error_body ''Product not found''\<rparr>,
             [UpdateOne (ObjectId ident) (set_document updates now)], st')
          else
            (\<lparr>status = 200,
              body = JObj [(''message'',
                            JStr (if comment_only updates then ''Comment updated successfully''
                                  else ''Product updated successfully'')),
                           (''product'', JObj (set_document updates now))]\<rparr>,
             [UpdateOne (ObjectId ident) (set_document updates now)], st'))"
proof (cases "comment_only updates")
  case True
  then have sd: "set_document updates now =
      [(''comment'', get_prop updates ''comment''), (''lastModifiedAt'', JDate now)]"
    by (simp add: set_document_def)
  from True have guard:
    "(truthy (get_prop updates ''comment'') \<and> \<not> truthy (get_prop updates ''ratings'')) = True"
    by (simp add: comment_only_def)
  show ?thesis
    unfolding sd using assms(1) True
    by (simp only: put_product_def Let_def guard if_False if_True not_True_eq_False not_not)
next
  case False
  then have sd: "set_document updates now = AList.update ''lastModifiedAt'' (JDate now) updates"
    by (simp add: set_document_def)
  from False assms(2) have ex: "list_ex (\<lambda>key. startsWith key ''ratings.'') (map fst updates) = True"
    by simp
  from False have guard:
    "(truthy (get_prop updates ''comment'') \<and> \<not> truthy (get_prop updates ''ratings'')) = False"
    by (simp add: comment_only_def)
  show ?thesis
    unfolding sd using assms(1) False
    by (simp only: put_product_def Let_def guard ex if_False if_True not_True_eq_False not_not)
qed

lemma put_success_generic:
  assumes "put_product isValid ObjectId updateOne now ident updates st = (resp, calls, st')"
    and "status resp = 200"
  shows "\<exists>msg n. body resp = JObj [(''message'', JStr msg),
                                    (''product'', JObj (set_document updates now))] \<and>
           calls = [UpdateOne (ObjectId ident) (set_document updates now)] \<and>
           updateOne (ObjectId ident) (set_document updates now) st = (Inr (Suc n), st')"
proof -
  have valid: "isValid ident"
    using assms by (auto simp: put_product_def split: if_splits)
  have mode: "comment_only updates \<or> list_ex (\<lambda>key. startsWith key ''ratings.'') (map fst updates)"
    using assms valid by (auto simp: put_product_def comment_only_def Let_def split: if_splits)
  from assms show ?thesis
    unfolding put_issues_update [where isValid = isValid and ident = ident, OF valid mode]
    by (auto simp: gr0_conv_Suc split: prod.splits sum.splits if_splits)
qed


section \<open>Identifier validation\<close>

text \<open>
  C7: for every id that \<^verbatim>\<open>ObjectId.isValid\<close> rejects, whatever the update document,
  whatever the store would answer, the handler responds 400 with the error
  \<^verbatim>\<open>Invalid product ID format\<close>, issues no store operation and leaves the store as
  it is.
\<close>

theorem put_invalid_id:
  assumes "\<not> isValid ident"
  shows "put_product isValid ObjectId updateOne now ident updates st =
           (\<lparr>status = 400, body = error_body ''Invalid product ID format''\<rparr>, [], st)"
  using assms by (simp add: put_product_def)

theorem put_invalid_id_witness:
  "\<not> isValid_hex24 ''not-an-id'' \<and>
   put_product isValid_hex24 id (\<lambda>oid d st. (Inl NonError, st + 1)) 7 ''not-an-id''
     [(''comment'', JStr ''x'')] (0::nat) =
     (\<lparr>status = 400, body = JObj [(''error'', JStr ''Invalid product ID format'')]\<rparr>, [], 0)"
proof -
  have h: "\<not> isValid_hex24 ''not-an-id''"
    by (simp add: isValid_hex24_def)
  show ?thesis
    using h put_invalid_id [where isValid = isValid_hex24 and ident = "''not-an-id''"
        and ObjectId = id and updateOne = "\<lambda>oid d st. (Inl NonError, st + 1)" and now = 7
        and updates = "[(''comment'', JStr ''x'')]" and st = "0::nat"]
    by (simp add: error_body_def)
qed

section \<open>Rejected updates\<close>

text \<open>
  C6: for every update document with no \<^verbatim>\<open>comment\<close> field and no field whose name
  starts with \<^verbatim>\<open>ratings.\<close> (the empty document is one), the handler responds 400,
  issues no store operation and leaves the store as it is; under a valid id the error is
  \<^verbatim>\<open>Rating is required for product updates\<close> (under an invalid one, that of the id).
\<close>

theorem put_missing_rating_or_comment:
  assumes "''comment'' \<notin> set (map fst updates)"
    and "\<not> list_ex (\<lambda>key. startsWith key ''ratings.'') (map fst updates)"
  shows "put_product isValid ObjectId updateOne now ident updates st =
           (\<lparr>status = 400,
             body = error_body (if isValid ident then ''Rating is required for product updates''
                                else ''Invalid product ID format'')\<rparr>, [], st)"
proof -
  from assms(1) have "map_of updates ''comment'' = None"
    by (simp add: map_of_eq_None_iff)
  then have "\<not> truthy (get_prop updates ''comment'')"
    by (simp add: get_prop_def)
  with assms(2) show ?thesis
    by (simp add: put_product_def)
qed

theorem put_missing_rating_or_comment_witness:
  "''comment'' \<notin> set (map fst [(''name'', JStr ''tea'')]) \<and>
   \<not> list_ex (\<lambda>key. startsWith key ''ratings.'') (map fst [(''name'', JStr ''tea'')]) \<and>
   put_product isValid_hex24 id mongo_updateOne 7 example_id [(''name'', JStr ''tea'')]
     [example_id \<mapsto> example_product] =
     (\<lparr>status = 400, body = JObj [(''error'', JStr ''Rating is required for product updates'')]\<rparr>,
      [], [example_id \<mapsto> example_product])"
proof -
  have a: "''comment'' \<notin> set (map fst [(''name'', JStr ''tea'')])"
    by simp
  have b: "\<not> list_ex (\<lambda>key. startsWith key ''ratings.'') (map fst [(''name'', JStr ''tea'')])"
    by simp
  from put_missing_rating_or_comment [where isValid = isValid_hex24 and ident = example_id
      and ObjectId = id and updateOne = mongo_updateOne and now = 7
      and st = "[example_id \<mapsto> example_product]", OF a b] example_id_valid a b
  show ?thesis by (simp add: error_body_def)
qed

section \<open>What the handler does with the store's answer\<close>

text \<open>
  C8: for every valid id and every update document that the handler does not reject
  (its first branch applies, or a field name starts with \<^verbatim>\<open>ratings.\<close>), when the
  store's \<^verbatim>\<open>updateOne\<close> reports \<^verbatim>\<open>matchedCount\<close> 0 for the handler's
  \<^verbatim>\<open>$set\<close> document, the handler responds 404 with \<^verbatim>\<open>Product not found\<close>,
  having issued that one operation.
\<close>

theorem put_not_found:
  assumes "isValid ident"
    and "comment_only updates \<or> list_ex (\<lambda>key. startsWith key ''ratings.'') (map fst updates)"
    and "updateOne (ObjectId ident) (set_document updates now) st = (Inr 0, st')"
  shows "put_product isValid ObjectId updateOne now ident updates st =
           (\<lparr>status = 404, body = error_body ''Product not found''\<rparr>,
            [UpdateOne (ObjectId ident) (set_document updates now)], st')"
  unfolding put_issues_update [where isValid = isValid and ident = ident, OF assms(1,2)]
  using assms(3) by simp

theorem put_not_found_witness:
  "isValid_hex24 ''507f1f77bcf86cd799439099'' \<and>
   put_product isValid_hex24 id mongo_updateOne 7 ''507f1f77bcf86cd799439099''
     [(''ratings.afia'', JNum 3)] [example_id \<mapsto> example_product] =
     (\<lparr>status = 404, body = JObj [(''error'', JStr ''Product not found'')]\<rparr>,
      [UpdateOne ''507f1f77bcf86cd799439099''
         [(''ratings.afia'', JNum 3), (''lastModifiedAt'', JDate 7)]],
      [example_id \<mapsto> example_product])"
proof -
  let ?u = "[(''ratings.afia'', JNum 3)]"
  have a: "isValid_hex24 ''507f1f77bcf86cd799439099''"
    by (simp add: isValid_hex24_def hex_digit_def)
  have b: "comment_only ?u \<or> list_ex (\<lambda>key. startsWith key ''ratings.'') (map fst ?u)"
    by simp
  have sd: "set_document ?u 7 = [(''ratings.afia'', JNum 3), (''lastModifiedAt'', JDate 7)]"
    by (simp add: set_document_def comment_only_def get_prop_def)
  have c: "mongo_updateOne (id ''507f1f77bcf86cd799439099'') (set_document ?u 7)
             [example_id \<mapsto> example_product] = (Inr 0, [example_id \<mapsto> example_product])"
    unfolding sd by (simp add: mongo_updateOne_def valid_path_def conflicting_def example_id_def)
  from put_not_found [where isValid = isValid_hex24 and ident = "''507f1f77bcf86cd799439099''"
      and ObjectId = id and updateOne = mongo_updateOne, OF a b c]
  have "put_product isValid_hex24 id mongo_updateOne 7 ''507f1f77bcf86cd799439099'' ?u
          [example_id \<mapsto> example_product] =
        (\<lparr>status = 404, body = JObj [(''error'', JStr ''Product not found'')]\<rparr>,
         [UpdateOne ''507f1f77bcf86cd799439099''
            [(''ratings.afia'', JNum 3), (''lastModifiedAt'', JDate 7)]],
         [example_id \<mapsto> example_product])"
    unfolding sd error_body_def by simp
  with a show ?thesis by (rule conjI)
qed

text \<open>
  C9, as stated, fails: when \<^verbatim>\<open>updateOne\<close> throws an \<^verbatim>\<open>Error\<close> with the message
  \<^verbatim>\<open>connection refused\<close>, the response carries \<^verbatim>\<open>Internal server error\<close>, not the
  error's message.
\<close>

theorem put_error_message_not_passed_counterexample:
  "fst (put_product isValid_hex24 id
          (\<lambda>oid set_doc st. (Inl (ErrorObj ''connection refused''), st)) 7
          example_id [(''comment'', JStr ''great'')] [example_id \<mapsto> example_product]) =
     \<lparr>status = 500, body = JObj [(''error'', JStr ''Internal server error'')]\<rparr> \<and>
   fst (put_product isValid_hex24 id
          (\<lambda>oid set_doc st. (Inl (ErrorObj ''connection refused''), st)) 7
          example_id [(''comment'', JStr ''great'')] [example_id \<mapsto> example_product]) \<noteq>
     \<lparr>status = 500, body = JObj [(''error'', JStr ''connection refused'')]\<rparr>"
  by (simp add: run_defs)

text \<open>
  C9, amended: for every valid id and every update document that the handler does not
  reject, when \<^verbatim>\<open>updateOne\<close> throws, whatever it throws (an \<^verbatim>\<open>Error\<close> with any
  message, a \<^verbatim>\<open>MongoServerError\<close>, or a value that is no \<^verbatim>\<open>Error\<close>), the handler
  responds 500 with the one message \<^verbatim>\<open>Internal server error\<close>.
\<close>

theorem put_store_failure:
  assumes "isValid ident"
    and "comment_only updates \<or> list_ex (\<lambda>key. startsWith key ''ratings.'') (map fst updates)"
    and "updateOne (ObjectId ident) (set_document updates now) st = (Inl e, st')"
  shows "put_product isValid ObjectId updateOne now ident updates st =
           (\<lparr>status = 500, body = JObj [(''error'', JStr ''Internal server error'')]\<rparr>,
            [UpdateOne (ObjectId ident) (set_document updates now)], st')"
  unfolding put_issues_update [where isValid = isValid and ident = ident, OF assms(1,2)]
  using assms(3) by (simp add: error_body_def)

theorem put_store_failure_witness:
  "put_product isValid_hex24 id mongo_updateOne 7 example_id
     [(''ratings.nifar'', JNum 5), (''_id'', JStr ''x'')] [example_id \<mapsto> example_product] =
     (\<lparr>status = 500, body = JObj [(''error'', JStr ''Internal server error'')]\<rparr>,
      [UpdateOne example_id
         [(''ratings.nifar'', JNum 5), (''_id'', JStr ''x''), (''lastModifiedAt'', JDate 7)]],
      [example_id \<mapsto> example_product])"
proof -
  let ?u = "[(''ratings.nifar'', JNum 5), (''_id'', JStr ''x'')]"
  have b: "comment_only ?u \<or> list_ex (\<lambda>key. startsWith key ''ratings.'') (map fst ?u)"
    by simp
  have sd: "set_document ?u 7 =
      [(''ratings.nifar'', JNum 5), (''_id'', JStr ''x''), (''lastModifiedAt'', JDate 7)]"
    by (simp add: set_document_def comment_only_def get_prop_def)
  have c: "mongo_updateOne (id example_id) (set_document ?u 7) [example_id \<mapsto> example_product] =
      (Inl (MongoServerError 66 ''Update would modify the immutable field _id''),
       [example_id \<mapsto> example_product])"
    unfolding sd by (simp add: mongo_updateOne_def valid_path_def conflicting_def)
  from put_store_failure [where isValid = isValid_hex24 and ident = example_id
      and ObjectId = id and updateOne = mongo_updateOne, OF example_id_valid b c]
  show ?thesis
    unfolding sd by simp
qed

section \<open>A comment together with a rating\<close>

text \<open>
  C1, as stated, fails. For the update \<^verbatim>\<open>{comment: "great", "ratings.nifar": 5}\<close> on
  an existing product the handler takes its first branch: the response is that of a
  comment update, and the \<^verbatim>\<open>$set\<close> document holds the comment and the time, not
  the rating. For \<^verbatim>\<open>{comment: "", "ratings.nifar": 5}\<close> on a product whose comment is
  \<^verbatim>\<open>old\<close> the handler takes its second branch, and the comment is not dropped: it is
  in the \<^verbatim>\<open>$set\<close> document, and the stored comment becomes the empty string.
\<close>

theorem put_overlap_counterexample:
  "fst (put_product isValid_hex24 id mongo_updateOne 7 example_id
          [(''comment'', JStr ''great''), (''ratings.nifar'', JNum 5)]
          [example_id \<mapsto> example_product]) =
     \<lparr>status = 200,
      body = JObj [(''message'', JStr ''Comment updated successfully''),
                   (''product'', JObj [(''comment'', JStr ''great''), (''lastModifiedAt'', JDate 7)])]\<rparr> \<and>
   put_product isValid_hex24 id mongo_updateOne 7 example_id
     [(''comment'', JStr []), (''ratings.nifar'', JNum 5)]
     [example_id \<mapsto> AList.update ''comment'' (JStr ''old'') example_product] =
     (\<lparr>status = 200,
       body = JObj [(''message'', JStr ''Product updated successfully''),
                    (''product'', JObj [(''comment'', JStr []), (''ratings.nifar'', JNum 5),
                                        (''lastModifiedAt'', JDate 7)])]\<rparr>,
      [UpdateOne example_id
         [(''comment'', JStr []), (''ratings.nifar'', JNum 5), (''lastModifiedAt'', JDate 7)]],
      [example_id \<mapsto>
         [(''name'', JStr ''tea''), (''imageUrls'', JArr []),
          (''ratings'', JObj [(''nifar'', JNum 5), (''afia'', JNum 0), (''sijil'', JNum 0),
                              (''naim'', JNum 0)]),
          (''comment'', JStr []), (''createdAt'', JDate 1), (''lastModifiedAt'', JDate 7)]])"
  by (simp add: run_defs)

text \<open>
  C1, amended: for every update document with a \<^verbatim>\<open>comment\<close> field and a field whose
  name starts with \<^verbatim>\<open>ratings.\<close>, whose comment is falsy or which has a truthy
  \<^verbatim>\<open>ratings\<close> field besides, the handler (under a valid id that the store matches)
  takes its second branch, and the comment is kept: the \<^verbatim>\<open>$set\<close> document submitted
  and returned is the whole update document, its comment as supplied, with
  \<^verbatim>\<open>lastModifiedAt\<close>.
\<close>

theorem put_overlap_ratings_mode_keeps_comment:
  assumes "isValid ident"
    and "''comment'' \<in> set (map fst updates)"
    and "list_ex (\<lambda>key. startsWith key ''ratings.'') (map fst updates)"
    and "\<not> truthy (get_prop updates ''comment'') \<or> truthy (get_prop updates ''ratings'')"
    and "updateOne (ObjectId ident) (AList.update ''lastModifiedAt'' (JDate now) updates) st =
           (Inr (Suc n), st')"
  shows "put_product isValid ObjectId updateOne now ident updates st =
           (\<lparr>status = 200,
             body = JObj [(''message'', JStr ''Product updated successfully''),
                          (''product'', JObj (AList.update ''lastModifiedAt'' (JDate now) updates))]\<rparr>,
            [UpdateOne (ObjectId ident) (AList.update ''lastModifiedAt'' (JDate now) updates)], st') \<and>
         map_of (AList.update ''lastModifiedAt'' (JDate now) updates) ''comment'' =
           map_of updates ''comment'' \<and>
         map_of updates ''comment'' \<noteq> None"
proof -
  from assms(4) have no: "\<not> comment_only updates"
    by (auto simp: comment_only_def)
  then have sd: "set_document updates now = AList.update ''lastModifiedAt'' (JDate now) updates"
    by (simp add: set_document_def)
  from assms(3) have mode:
    "comment_only updates \<or> list_ex (\<lambda>key. startsWith key ''ratings.'') (map fst updates)"
    by simp
  have "put_product isValid ObjectId updateOne now ident updates st =
           (\<lparr>status = 200,
             body = JObj [(''message'', JStr ''Product updated successfully''),
                          (''product'', JObj (AList.update ''lastModifiedAt'' (JDate now) updates))]\<rparr>,
            [UpdateOne (ObjectId ident) (AList.update ''lastModifiedAt'' (JDate now) updates)], st')"
    unfolding put_issues_update [where isValid = isValid and ident = ident, OF assms(1) mode]
    unfolding sd using assms(5) no by simp
  moreover have "map_of (AList.update ''lastModifiedAt'' (JDate now) updates) ''comment'' =
      map_of updates ''comment''"
    by (simp add: update_conv')
  moreover have "map_of updates ''comment'' \<noteq> None"
    using assms(2) by (simp add: map_of_eq_None_iff)
  ultimately show ?thesis by blast
qed

theorem put_overlap_ratings_mode_keeps_comment_witness:
  "put_product isValid_hex24 id mongo_updateOne 7 example_id
     [(''comment'', JStr []), (''ratings.nifar'', JNum 5)] [example_id \<mapsto> example_product] =
     (\<lparr>status = 200,
       body = JObj [(''message'', JStr ''Product updated successfully''),
                    (''product'', JObj [(''comment'', JStr []), (''ratings.nifar'', JNum 5),
                                        (''lastModifiedAt'', JDate 7)])]\<rparr>,
      [UpdateOne example_id
         [(''comment'', JStr []), (''ratings.nifar'', JNum 5), (''lastModifiedAt'', JDate 7)]],
      [example_id \<mapsto>
         [(''name'', JStr ''tea''), (''imageUrls'', JArr []),
          (''ratings'', JObj [(''nifar'', JNum 5), (''afia'', JNum 0), (''sijil'', JNum 0),
                              (''naim'', JNum 0)]),
          (''comment'', JStr []), (''createdAt'', JDate 1), (''lastModifiedAt'', JDate 7)]])"
proof -
  let ?u = "[(''comment'', JStr []), (''ratings.nifar'', JNum 5)]"
  have a: "''comment'' \<in> set (map fst ?u)" by simp
  have b: "list_ex (\<lambda>key. startsWith key ''ratings.'') (map fst ?u)" by simp
  have c: "\<not> truthy (get_prop ?u ''comment'') \<or> truthy (get_prop ?u ''ratings'')"
    by (simp add: get_prop_def)
  have d: "mongo_updateOne (id example_id) (AList.update ''lastModifiedAt'' (JDate 7) ?u)
             [example_id \<mapsto> example_product] =
           (Inr (Suc 0), [example_id \<mapsto>
              [(''name'', JStr ''tea''), (''imageUrls'', JArr []),
               (''ratings'', JObj [(''nifar'', JNum 5), (''afia'', JNum 0), (''sijil'', JNum 0),
                                   (''naim'', JNum 0)]),
               (''comment'', JStr []), (''createdAt'', JDate 1), (''lastModifiedAt'', JDate 7)]])"
    by (simp add: run_defs)
  from put_overlap_ratings_mode_keeps_comment [where isValid = isValid_hex24
      and ident = example_id and updates = ?u and ObjectId = id and updateOne = mongo_updateOne
      and now = 7 and st = "[example_id \<mapsto> example_product]", OF example_id_valid a b c d]
  show ?thesis by simp
qed

text \<open>
  C5 at \<^verbatim>\<open>{comment: "great", "ratings.nifar": 5}\<close>, a valid id and an existing
  product: the one store operation sets the comment and the time only; the stored
  \<^verbatim>\<open>ratings.nifar\<close> stays 0, and the rating supplied is in no \<^verbatim>\<open>$set\<close>.
\<close>

theorem put_overlap_drops_rating:
  "snd (put_product isValid_hex24 id mongo_updateOne 7 example_id
          [(''comment'', JStr ''great''), (''ratings.nifar'', JNum 5)]
          [example_id \<mapsto> example_product]) =
     ([UpdateOne example_id [(''comment'', JStr ''great''), (''lastModifiedAt'', JDate 7)]],
      [example_id \<mapsto>
        [(''name'', JStr ''tea''), (''imageUrls'', JArr []),
         (''ratings'', JObj [(''nifar'', JNum 0), (''afia'', JNum 0), (''sijil'', JNum 0),
                             (''naim'', JNum 0)]),
         (''comment'', JStr ''great''), (''createdAt'', JDate 1), (''lastModifiedAt'', JDate 7)]])"
  by (simp add: run_defs)

section \<open>The store: what a field-level update changes\<close>

lemma update_absent: "map_of d k = None \<Longrightarrow> AList.update k v d = d @ [(k, v)]"
  by (induction d) (auto split: if_splits)

lemma split_dots_nonempty: "split_dots s \<noteq> []"
  by (cases s) (auto split: list.splits)

lemma keys_update: "set (map fst (AList.update k v al)) = insert k (set (map fst al))"
  by (induction al) auto

lemma set_in_top: "set_in [k] v (JObj d) = Inr (JObj (AList.update k v d))"
  by (cases "map_of d k") (simp_all add: update_absent)

lemma set_in_frame:
  assumes "set_in (k # ks) w (JObj d) = Inr r"
  shows "\<exists>d'. r = JObj d' \<and> (\<forall>f. f \<noteq> k \<longrightarrow> map_of d' f = map_of d f)"
proof (cases "map_of d k")
  case None
  with assms have "r = JObj (d @ [(k, nest ks w)])" by simp
  moreover have "\<forall>f. f \<noteq> k \<longrightarrow> map_of (d @ [(k, nest ks w)]) f = map_of d f"
    by (simp add: map_add_def split: option.splits)
  ultimately show ?thesis by blast
next
  case (Some c)
  with assms obtain c' where "r = JObj (AList.update k c' d)"
    by (auto split: sum.splits)
  then show ?thesis by (simp add: update_conv')
qed

lemma apply_set_frame:
  assumes "apply_set ps (JObj d) = Inr r"
    and "list_all (\<lambda>p. p \<noteq> [] \<and> hd p \<noteq> f) (map fst ps)"
  shows "\<exists>d'. r = JObj d' \<and> map_of d' f = map_of d f"
  using assms
proof (induction ps arbitrary: d)
  case Nil
  then show ?case by auto
next
  case (Cons a ps)
  obtain p w where a: "a = (p, w)" by (cases a)
  from Cons.prems(2) a obtain k ks where p: "p = k # ks" and kf: "k \<noteq> f"
    by (cases p) auto
  from Cons.prems(1) a obtain c where c: "set_in p w (JObj d) = Inr c" and rest: "apply_set ps c = Inr r"
    by (auto split: sum.splits)
  from set_in_frame [OF c [unfolded p]] kf obtain d1 where d1: "c = JObj d1" "map_of d1 f = map_of d f"
    by auto
  from Cons.IH [OF rest [unfolded d1(1)]] Cons.prems(2) d1(2) show ?case by auto
qed



lemma mongo_updateOne_matched:
  assumes "mongo_updateOne oid set_doc st = (Inr (Suc n), st')"
  shows "\<exists>d d'. st oid = Some d \<and> st' = st(oid \<mapsto> d') \<and>
           apply_set (map (\<lambda>(k, v). (split_dots k, v)) set_doc) (JObj d) = Inr (JObj d') \<and>
           list_all valid_path (map fst (map (\<lambda>(k, v). (split_dots k, v)) set_doc)) \<and>
           conflict_free (map fst (map (\<lambda>(k, v). (split_dots k, v)) set_doc))"
  using assms
  by (auto simp: mongo_updateOne_def Let_def split: if_splits option.splits sum.splits jsval.splits)

lemma mongo_updateOne_top_fields:
  assumes "st oid = Some d"
  shows "mongo_updateOne oid [(''comment'', c), (''lastModifiedAt'', t)] st =
           (Inr 1, st(oid \<mapsto> AList.update ''lastModifiedAt'' t (AList.update ''comment'' c d)))"
proof -
  have "apply_set [([''comment''], c), ([''lastModifiedAt''], t)] (JObj d) =
          Inr (JObj (AList.update ''lastModifiedAt'' t (AList.update ''comment'' c d)))"
    by (simp add: set_in_top del: set_in.simps)
  with assms show ?thesis
    by (simp add: mongo_updateOne_def valid_path_def conflicting_def del: apply_set.simps set_in.simps)
qed


section \<open>Comment updates\<close>

text \<open>
  C2, as stated, fails: the update \<^verbatim>\<open>{comment: ""}\<close> has a comment field and no
  field that starts with \<^verbatim>\<open>ratings.\<close>, yet under a valid id of an existing product
  the handler responds 400 and issues no store operation.
\<close>

theorem put_empty_comment_rejected_counterexample:
  "put_product isValid_hex24 id mongo_updateOne 7 example_id [(''comment'', JStr [])]
     [example_id \<mapsto> example_product] =
     (\<lparr>status = 400, body = JObj [(''error'', JStr ''Rating is required for product updates'')]\<rparr>,
      [], [example_id \<mapsto> example_product])"
  by (simp add: run_defs)

text \<open>
  C2, amended: for every update document whose \<^verbatim>\<open>comment\<close> is truthy, that has no
  truthy \<^verbatim>\<open>ratings\<close> field and no field whose name starts with \<^verbatim>\<open>ratings.\<close>,
  under a valid id of an existing product: the handler issues one \<^verbatim>\<open>$set\<close> of
  \<^verbatim>\<open>comment\<close> (the value supplied) and \<^verbatim>\<open>lastModifiedAt\<close> (the current time),
  the stored product has these two values and every other field as before
  (\<^verbatim>\<open>ratings\<close> among them), and the response is 200 with the message
  \<^verbatim>\<open>Comment updated successfully\<close> and the two fields.
\<close>

theorem put_comment_only:
  assumes "isValid ident"
    and "truthy (get_prop updates ''comment'')"
    and "\<not> truthy (get_prop updates ''ratings'')"
    and "\<not> list_ex (\<lambda>key. startsWith key ''ratings.'') (map fst updates)"
    and "st (ObjectId ident) = Some d"
  shows "\<exists>d'. put_product isValid ObjectId mongo_updateOne now ident updates st =
           (\<lparr>status = 200,
             body = JObj [(''message'', JStr ''Comment updated successfully''),
                          (''product'', JObj [(''comment'', get_prop updates ''comment''),
                                              (''lastModifiedAt'', JDate now)])]\<rparr>,
            [UpdateOne (ObjectId ident)
               [(''comment'', get_prop updates ''comment''), (''lastModifiedAt'', JDate now)]],
            st(ObjectId ident \<mapsto> d')) \<and>
          map_of d' ''comment'' = Some (get_prop updates ''comment'') \<and>
          map_of d' ''lastModifiedAt'' = Some (JDate now) \<and>
          map_of d' ''ratings'' = map_of d ''ratings'' \<and>
          (\<forall>f. f \<noteq> ''comment'' \<and> f \<noteq> ''lastModifiedAt'' \<longrightarrow> map_of d' f = map_of d f)"
proof -
  let ?d' = "AList.update ''lastModifiedAt'' (JDate now)
               (AList.update ''comment'' (get_prop updates ''comment'') d)"
  have "put_product isValid ObjectId mongo_updateOne now ident updates st =
           (\<lparr>status = 200,
             body = JObj [(''message'', JStr ''Comment updated successfully''),
                          (''product'', JObj [(''comment'', get_prop updates ''comment''),
                                              (''lastModifiedAt'', JDate now)])]\<rparr>,
            [UpdateOne (ObjectId ident)
               [(''comment'', get_prop updates ''comment''), (''lastModifiedAt'', JDate now)]],
            st(ObjectId ident \<mapsto> ?d'))"
    using assms(1,2,3)
      mongo_updateOne_top_fields [where st = st and oid = "ObjectId ident" and d = d, OF assms(5)]
    by (simp add: put_product_def Let_def)
  moreover have "map_of ?d' ''comment'' = Some (get_prop updates ''comment'')"
    by (simp add: update_conv')
  moreover have "map_of ?d' ''lastModifiedAt'' = Some (JDate now)"
    by (simp add: update_conv')
  moreover have "map_of ?d' ''ratings'' = map_of d ''ratings''"
    by (simp add: update_conv')
  moreover have "\<forall>f. f \<noteq> ''comment'' \<and> f \<noteq> ''lastModifiedAt'' \<longrightarrow> map_of ?d' f = map_of d f"
    by (simp add: update_conv')
  ultimately show ?thesis by blast
qed

theorem put_comment_only_witness:
  "put_product isValid_hex24 id mongo_updateOne 7 example_id [(''comment'', JStr ''great'')]
     [example_id \<mapsto> example_product] =
     (\<lparr>status = 200,
       body = JObj [(''message'', JStr ''Comment updated successfully''),
                    (''product'', JObj [(''comment'', JStr ''great''), (''lastModifiedAt'', JDate 7)])]\<rparr>,
      [UpdateOne example_id [(''comment'', JStr ''great''), (''lastModifiedAt'', JDate 7)]],
      [example_id \<mapsto>
        [(''name'', JStr ''tea''), (''imageUrls'', JArr []),
         (''ratings'', JObj [(''nifar'', JNum 0), (''afia'', JNum 0), (''sijil'', JNum 0),
                             (''naim'', JNum 0)]),
         (''comment'', JStr ''great''), (''createdAt'', JDate 1), (''lastModifiedAt'', JDate 7)]])"
proof -
  let ?u = "[(''comment'', JStr ''great'')]"
  let ?d = "[(''name'', JStr ''tea''), (''imageUrls'', JArr []),
         (''ratings'', JObj [(''nifar'', JNum 0), (''afia'', JNum 0), (''sijil'', JNum 0),
                             (''naim'', JNum 0)]),
         (''comment'', JStr ''great''), (''createdAt'', JDate 1), (''lastModifiedAt'', JDate 7)]"
  have a: "truthy (get_prop ?u ''comment'')" by (simp add: get_prop_def)
  have b: "\<not> truthy (get_prop ?u ''ratings'')" by (simp add: get_prop_def)
  have c: "\<not> list_ex (\<lambda>key. startsWith key ''ratings.'') (map fst ?u)" by simp
  have d: "[example_id \<mapsto> example_product] (id example_id) = Some example_product" by simp
  from put_comment_only [where isValid = isValid_hex24 and ident = example_id and updates = ?u
      and ObjectId = id and st = "[example_id \<mapsto> example_product]" and d = example_product
      and now = 7, OF example_id_valid a b c d] obtain d' where
    r: "put_product isValid_hex24 id mongo_updateOne 7 example_id ?u [example_id \<mapsto> example_product] =
          (\<lparr>status = 200,
            body = JObj [(''message'', JStr ''Comment updated successfully''),
                         (''product'', JObj [(''comment'', get_prop ?u ''comment''),
                                             (''lastModifiedAt'', JDate 7)])]\<rparr>,
           [UpdateOne (id example_id) [(''comment'', get_prop ?u ''comment''), (''lastModifiedAt'', JDate 7)]],
           [example_id \<mapsto> example_product](id example_id \<mapsto> d'))"
    and fields: "map_of d' ''comment'' = Some (get_prop ?u ''comment'')"
    by blast
  have e: "snd (snd (put_product isValid_hex24 id mongo_updateOne 7 example_id ?u
                       [example_id \<mapsto> example_product])) = [example_id \<mapsto> ?d]"
    by (simp add: run_defs)
  with r have "[example_id \<mapsto> d'] = [example_id \<mapsto> ?d]"
    by simp
  then have "d' = ?d"
    by (auto dest: fun_cong [where x = example_id])
  with r show ?thesis
    by (simp add: get_prop_def)
qed

section \<open>The creation time and the identifier\<close>

text \<open>
  C4, as stated, fails: the update \<^verbatim>\<open>{"ratings.nifar": 5, createdAt: "1999"}\<close> under a
  valid id of an existing product succeeds, and the stored \<^verbatim>\<open>createdAt\<close> is the
  string supplied.
\<close>

theorem put_overwrites_createdAt_counterexample:
  "put_product isValid_hex24 id mongo_updateOne 7 example_id
     [(''ratings.nifar'', JNum 5), (''createdAt'', JStr ''1999'')]
     [example_id \<mapsto> example_product] =
     (\<lparr>status = 200,
       body = JObj [(''message'', JStr ''Product updated successfully''),
                    (''product'', JObj [(''ratings.nifar'', JNum 5), (''createdAt'', JStr ''1999''),
                                        (''lastModifiedAt'', JDate 7)])]\<rparr>,
      [UpdateOne example_id [(''ratings.nifar'', JNum 5), (''createdAt'', JStr ''1999''),
                             (''lastModifiedAt'', JDate 7)]],
      [example_id \<mapsto>
        [(''name'', JStr ''tea''), (''imageUrls'', JArr []),
         (''ratings'', JObj [(''nifar'', JNum 5), (''afia'', JNum 0), (''sijil'', JNum 0),
                             (''naim'', JNum 0)]),
         (''comment'', JStr []), (''createdAt'', JStr ''1999''), (''lastModifiedAt'', JDate 7)]])"
  by (simp add: run_defs)

text \<open>
  C4, amended: for every successful update (status 200), in either branch, the product
  existed, it is stored under the same identifier, every other product is as before and
  the collection holds the same identifiers; and when the update takes the handler's
  first branch, or its document has no field name starting at \<^verbatim>\<open>createdAt\<close>
  (\<^verbatim>\<open>createdAt\<close> itself or a path below it), the product's \<^verbatim>\<open>createdAt\<close> is
  unchanged.
\<close>

theorem put_keeps_createdAt:
  assumes "put_product isValid ObjectId mongo_updateOne now ident updates st = (resp, calls, st')"
    and "status resp = 200"
  shows "\<exists>d d'. st (ObjectId ident) = Some d \<and> st' = st(ObjectId ident \<mapsto> d') \<and>
           dom st' = dom st \<and>
           (comment_only updates \<or>
            list_all (\<lambda>key. hd (split_dots key) \<noteq> ''createdAt'') (map fst updates) \<longrightarrow>
            map_of d' ''createdAt'' = map_of d ''createdAt'')"
proof -
  let ?p = "set_document updates now"
  from put_success_generic [OF assms(1,2)] obtain n where
    upd: "mongo_updateOne (ObjectId ident) ?p st = (Inr (Suc n), st')"
    by blast
  from mongo_updateOne_matched [OF upd] obtain d d' where
    d: "st (ObjectId ident) = Some d" and st': "st' = st(ObjectId ident \<mapsto> d')" and
    ap: "apply_set (map (\<lambda>(k, v). (split_dots k, v)) ?p) (JObj d) = Inr (JObj d')"
    by blast
  have same_ids: "dom st' = dom st"
    using d st' by auto
  have kept: "map_of d' ''createdAt'' = map_of d ''createdAt''"
    if h: "comment_only updates \<or>
           list_all (\<lambda>key. hd (split_dots key) \<noteq> ''createdAt'') (map fst updates)"
  proof -
    have keys: "\<forall>key \<in> set (map fst ?p). hd (split_dots key) \<noteq> ''createdAt''"
    proof (cases "comment_only updates")
      case True
      then show ?thesis by (simp add: set_document_def)
    next
      case False
      with h have "\<forall>key \<in> set (map fst updates). hd (split_dots key) \<noteq> ''createdAt''"
        by (simp add: list_all_iff)
      moreover from False have
        "set (map fst ?p) = insert ''lastModifiedAt'' (set (map fst updates))"
        by (simp only: set_document_def keys_update if_False)
      ultimately show ?thesis by simp
    qed
    have "list_all (\<lambda>q. q \<noteq> [] \<and> hd q \<noteq> ''createdAt'')
            (map fst (map (\<lambda>(k, v). (split_dots k, v)) ?p))"
      using keys by (auto simp: list_all_iff split_dots_nonempty)
    from apply_set_frame [OF ap this] show ?thesis
      by simp
  qed
  from d st' same_ids kept show ?thesis by blast
qed

theorem put_keeps_createdAt_witness:
  "put_product isValid_hex24 id mongo_updateOne 7 example_id [(''ratings.nifar'', JNum 5)]
      [example_id \<mapsto> example_product] =
      (\<lparr>status = 200,
        body = JObj [(''message'', JStr ''Product updated successfully''),
                     (''product'', JObj [(''ratings.nifar'', JNum 5), (''lastModifiedAt'', JDate 7)])]\<rparr>,
       [UpdateOne example_id [(''ratings.nifar'', JNum 5), (''lastModifiedAt'', JDate 7)]],
       [example_id \<mapsto>
         [(''name'', JStr ''tea''), (''imageUrls'', JArr []),
          (''ratings'', JObj [(''nifar'', JNum 5), (''afia'', JNum 0), (''sijil'', JNum 0),
                             (''naim'', JNum 0)]),
          (''comment'', JStr []), (''createdAt'', JDate 1), (''lastModifiedAt'', JDate 7)]]) \<and>
   map_of
     [(''name'', JStr ''tea''), (''imageUrls'', JArr []),
      (''ratings'', JObj [(''nifar'', JNum 5), (''afia'', JNum 0), (''sijil'', JNum 0),
                         (''naim'', JNum 0)]),
      (''comment'', JStr []), (''createdAt'', JDate 1), (''lastModifiedAt'', JDate 7)] ''createdAt'' =
   map_of example_product ''createdAt'' \<and>
   dom [example_id \<mapsto>
         [(''name'', JStr ''tea''), (''imageUrls'', JArr []),
          (''ratings'', JObj [(''nifar'', JNum 5), (''afia'', JNum 0), (''sijil'', JNum 0),
                             (''naim'', JNum 0)]),
          (''comment'', JStr []), (''createdAt'', JDate 1), (''lastModifiedAt'', JDate 7)]] =
   dom [example_id \<mapsto> example_product]"
proof -
  let ?d = "[(''name'', JStr ''tea''), (''imageUrls'', JArr []),
         (''ratings'', JObj [(''nifar'', JNum 5), (''afia'', JNum 0), (''sijil'', JNum 0),
                             (''naim'', JNum 0)]),
         (''comment'', JStr []), (''createdAt'', JDate 1), (''lastModifiedAt'', JDate 7)]"
  let ?resp = "\<lparr>status = 200,
        body = JObj [(''message'', JStr ''Product updated successfully''),
                     (''product'', JObj [(''ratings.nifar'', JNum 5), (''lastModifiedAt'', JDate 7)])]\<rparr>"
  have step: "put_product isValid_hex24 id mongo_updateOne 7 example_id [(''ratings.nifar'', JNum 5)]
      [example_id \<mapsto> example_product] =
      (?resp, [UpdateOne example_id [(''ratings.nifar'', JNum 5), (''lastModifiedAt'', JDate 7)]],
       [example_id \<mapsto> ?d])"
    by (simp add: run_defs)
  have ok: "status ?resp = 200" by simp
  have keys: "comment_only [(''ratings.nifar'', JNum 5)] \<or>
              list_all (\<lambda>key. hd (split_dots key) \<noteq> ''createdAt'') (map fst [(''ratings.nifar'', JNum 5)])"
    by simp
  from put_keeps_createdAt [OF step ok] keys obtain d d' where
    "[example_id \<mapsto> example_product] (id example_id) = Some d"
    "[example_id \<mapsto> ?d] = [example_id \<mapsto> example_product](id example_id \<mapsto> d')"
    "map_of d' ''createdAt'' = map_of d ''createdAt''"
    and ids: "dom [example_id \<mapsto> ?d] = dom [example_id \<mapsto> example_product]"
    by blast
  then have "d = example_product" "d' = ?d" "map_of d' ''createdAt'' = map_of d ''createdAt''"
    by (auto dest: fun_cong [where x = example_id])
  then have "map_of ?d ''createdAt'' = map_of example_product ''createdAt''"
    by simp
  with step ids show ?thesis by blast
qed

section \<open>The response and the store\<close>



section \<open>The reviewers of a product\<close>

lemma set_in_keys:
  assumes "set_in (k # ks) w (JObj d) = Inr r" and "k \<in> set (map fst d)"
  shows "\<exists>d'. r = JObj d' \<and> map fst d' = map fst d"
proof -
  from assms(2) obtain c where "map_of d k = Some c"
    by (cases "map_of d k") (auto simp: map_of_eq_None_iff)
  with assms(1) obtain c' where "r = JObj (AList.update k c' d)"
    by (auto split: sum.splits)
  with assms(2) show ?thesis by (simp add: update_keys)
qed

lemma set_in_four_reviewers:
  assumes "set_in p w (JObj d) = Inr r" and "p \<noteq> []" and "reviewer_path p" and "four_reviewers d"
  shows "\<exists>d'. r = JObj d' \<and> four_reviewers d'"
proof -
  from assms(2) obtain f ks where p: "p = f # ks" by (cases p) auto
  show ?thesis
  proof (cases "f = ''ratings''")
    case False
    from set_in_frame [OF assms(1) [unfolded p]] False obtain d' where
      "r = JObj d'" "map_of d' ''ratings'' = map_of d ''ratings''" by auto
    with assms(4) show ?thesis by (auto simp: four_reviewers_def)
  next
    case True
    with assms(3) p obtain k rest where ks: "ks = k # rest" and k: "k \<in> set reviewers"
      by (cases ks) (auto simp: reviewer_path_def)
    from assms(4) obtain rs where rs: "map_of d ''ratings'' = Some (JObj rs)" "map fst rs = reviewers"
      by (auto simp: four_reviewers_def split: option.splits jsval.splits)
    from assms(1) p True ks rs(1) obtain c' where
      c': "set_in (k # rest) w (JObj rs) = Inr c'" and r: "r = JObj (AList.update ''ratings'' c' d)"
      by (auto split: sum.splits)
    from set_in_keys [OF c'] k rs(2) obtain rs' where "c' = JObj rs'" "map fst rs' = reviewers"
      by auto
    with r show ?thesis by (simp add: four_reviewers_def update_conv')
  qed
qed

lemma apply_set_four_reviewers:
  assumes "apply_set ps (JObj d) = Inr r"
    and "list_all (\<lambda>p. p \<noteq> [] \<and> reviewer_path p) (map fst ps)"
    and "four_reviewers d"
  shows "\<exists>d'. r = JObj d' \<and> four_reviewers d'"
  using assms
proof (induction ps arbitrary: d)
  case Nil
  then show ?case by auto
next
  case (Cons a ps)
  obtain p w where a: "a = (p, w)" by (cases a)
  from Cons.prems(1) a obtain c where c: "set_in p w (JObj d) = Inr c" and rest: "apply_set ps c = Inr r"
    by (auto split: sum.splits)
  from Cons.prems(2) a have "p \<noteq> []" "reviewer_path p" by auto
  from set_in_four_reviewers [OF c this Cons.prems(3)] obtain d1 where
    d1: "c = JObj d1" "four_reviewers d1" by auto
  from Cons.IH [OF rest [unfolded d1(1)] _ d1(2)] Cons.prems(2) show ?case by auto
qed

lemma mongo_updateOne_four_reviewers:
  assumes "mongo_updateOne oid set_doc st = (res, st')"
    and "reviewer_fields_only set_doc"
    and "\<forall>i d. st i = Some d \<longrightarrow> four_reviewers d"
  shows "\<forall>i d. st' i = Some d \<longrightarrow> four_reviewers d"
proof (cases "st' = st")
  case True
  with assms(3) show ?thesis by simp
next
  case False
  with assms(1) obtain d d' where d: "st oid = Some d" and st': "st' = st(oid \<mapsto> d')" and
    ap: "apply_set (map (\<lambda>(k, v). (split_dots k, v)) set_doc) (JObj d) = Inr (JObj d')"
    by (auto simp: mongo_updateOne_def Let_def split: if_splits option.splits sum.splits jsval.splits)
  have "list_all (\<lambda>p. p \<noteq> [] \<and> reviewer_path p) (map fst (map (\<lambda>(k, v). (split_dots k, v)) set_doc))"
    using assms(2) by (auto simp: reviewer_fields_only_def list_all_iff split_dots_nonempty)
  from apply_set_four_reviewers [OF ap this] assms(3) d have "four_reviewers d'" by auto
  with assms(3) st' show ?thesis by auto
qed

lemma put_product_unchanged_or_updated:
  assumes "put_product isValid ObjectId updateOne now ident updates st = (resp, calls, st')"
  shows "st' = st \<or>
         (\<exists>res. updateOne (ObjectId ident)
                  [(''comment'', get_prop updates ''comment''), (''lastModifiedAt'', JDate now)] st = (res, st')) \<or>
         (\<exists>res. updateOne (ObjectId ident) (AList.update ''lastModifiedAt'' (JDate now) updates) st = (res, st'))"
  using assms
  by (auto simp: put_product_def Let_def split: if_splits prod.splits sum.splits)

lemma put_product_four_reviewers:
  assumes "put_product isValid ObjectId mongo_updateOne now ident updates st = (resp, calls, st')"
    and "reviewer_fields_only updates"
    and "\<forall>i d. st i = Some d \<longrightarrow> four_reviewers d"
  shows "\<forall>i d. st' i = Some d \<longrightarrow> four_reviewers d"
proof -
  have a: "reviewer_fields_only [(''comment'', get_prop updates ''comment''), (''lastModifiedAt'', JDate now)]"
    by (simp add: reviewer_fields_only_def reviewer_path_def)
  have lm: "reviewer_path (split_dots ''lastModifiedAt'')"
    by (simp add: reviewer_path_def)
  have "\<forall>key \<in> set (map fst updates). reviewer_path (split_dots key)"
    using assms(2) unfolding reviewer_fields_only_def list_all_iff .
  with lm have "\<forall>key \<in> set (map fst (AList.update ''lastModifiedAt'' (JDate now) updates)).
      reviewer_path (split_dots key)"
    unfolding keys_update by blast
  then have b: "reviewer_fields_only (AList.update ''lastModifiedAt'' (JDate now) updates)"
    unfolding reviewer_fields_only_def list_all_iff .
  from put_product_unchanged_or_updated [OF assms(1)] show ?thesis
    using mongo_updateOne_four_reviewers [OF _ a assms(3)] mongo_updateOne_four_reviewers [OF _ b assms(3)]
      assms(3) by blast
qed

lemma post_product_four_reviewers:
  assumes "post_product (mongo_insertOne new_id) now req_body st = (resp, calls, st')"
    and "\<forall>i d. st i = Some d \<longrightarrow> four_reviewers d"
  shows "\<forall>i d. st' i = Some d \<longrightarrow> four_reviewers d"
proof -
  have "four_reviewers (new_product req_body now)"
    by (simp add: new_product_def four_reviewers_def reviewers_def)
  moreover have "st' = st \<or> st' = st(new_id \<mapsto> new_product req_body now)"
    using assms(1)
    by (auto simp: post_product_def mongo_insertOne_def Let_def split: if_splits option.splits)
  ultimately show ?thesis using assms(2) by (auto split: if_splits)
qed

lemma serve_four_reviewers:
  assumes "reviewer_request r" and "\<forall>i d. st i = Some d \<longrightarrow> four_reviewers d"
  shows "\<forall>i d. serve isValid ObjectId r st i = Some d \<longrightarrow> four_reviewers d"
proof (cases r)
  case (Create new_id now req_body)
  obtain resp calls st' where
    p: "post_product (mongo_insertOne new_id) now req_body st = (resp, calls, st')"
    by (cases "post_product (mongo_insertOne new_id) now req_body st") auto
  from post_product_four_reviewers [OF p assms(2)] Create p show ?thesis by simp
next
  case (Update now ident updates)
  obtain resp calls st' where
    p: "put_product isValid ObjectId mongo_updateOne now ident updates st = (resp, calls, st')"
    by (cases "put_product isValid ObjectId mongo_updateOne now ident updates st") auto
  from assms(1) Update have "reviewer_fields_only updates" by simp
  from put_product_four_reviewers [OF p this assms(2)] Update p show ?thesis by simp
qed

lemma serve_all_four_reviewers:
  assumes "list_all reviewer_request rs" and "\<forall>i d. st i = Some d \<longrightarrow> four_reviewers d"
  shows "\<forall>i d. serve_all isValid ObjectId rs st i = Some d \<longrightarrow> four_reviewers d"
  using assms
proof (induction rs arbitrary: st)
  case Nil
  then show ?case by simp
next
  case (Cons r rs)
  from Cons.prems(1) have r: "reviewer_request r" and rs: "list_all reviewer_request rs"
    by simp_all
  from Cons.IH [OF rs serve_four_reviewers [OF r Cons.prems(2)]] show ?case by simp
qed

text \<open>
  C3, as stated, fails: from the empty collection, the creation of a product and the
  update \<^verbatim>\<open>{"ratings.bob": 5}\<close> leave a product whose \<^verbatim>\<open>ratings\<close> has a fifth
  key, \<^verbatim>\<open>bob\<close>.
\<close>

theorem unknown_reviewer_admitted_counterexample:
  "serve_all isValid_hex24 id
     [Create example_id 1 [(''name'', JStr ''tea''), (''imageUrls'', JArr [])],
      Update 7 example_id [(''ratings.bob'', JNum 5)]] Map.empty example_id =
     Some [(''name'', JStr ''tea''), (''imageUrls'', JArr []),
           (''ratings'', JObj [(''nifar'', JNum 0), (''afia'', JNum 0), (''sijil'', JNum 0),
                               (''naim'', JNum 0), (''bob'', JNum 5)]),
           (''comment'', JStr []), (''createdAt'', JDate 1), (''lastModifiedAt'', JDate 7)] \<and>
   \<not> four_reviewers
         [(''name'', JStr ''tea''), (''imageUrls'', JArr []),
           (''ratings'', JObj [(''nifar'', JNum 0), (''afia'', JNum 0), (''sijil'', JNum 0),
                               (''naim'', JNum 0), (''bob'', JNum 5)]),
           (''comment'', JStr []), (''createdAt'', JDate 1), (''lastModifiedAt'', JDate 7)]"
  by (simp add: run_defs four_reviewers_def reviewers_def)

text \<open>
  C3, amended: in the collection that any sequence of requests leaves from the empty
  one, where in each update document every field name that starts at \<^verbatim>\<open>ratings\<close>
  goes on with one of the four reviewers, each product's \<^verbatim>\<open>ratings\<close> is an object
  with exactly the keys \<^verbatim>\<open>nifar\<close>, \<^verbatim>\<open>afia\<close>, \<^verbatim>\<open>sijil\<close>, \<^verbatim>\<open>naim\<close>.
\<close>

theorem served_four_reviewers:
  assumes "list_all reviewer_request requests"
    and "serve_all isValid ObjectId requests Map.empty i = Some d"
  shows "four_reviewers d"
  using serve_all_four_reviewers [OF assms(1), of Map.empty isValid ObjectId] assms(2) by simp

theorem served_four_reviewers_witness:
  "list_all reviewer_request
     [Create example_id 1 [(''name'', JStr ''tea''), (''imageUrls'', JArr [])],
      Update 7 example_id [(''ratings.nifar'', JNum 5)]] \<and>
   serve_all isValid_hex24 id
     [Create example_id 1 [(''name'', JStr ''tea''), (''imageUrls'', JArr [])],
      Update 7 example_id [(''ratings.nifar'', JNum 5)]] Map.empty example_id =
     Some [(''name'', JStr ''tea''), (''imageUrls'', JArr []),
           (''ratings'', JObj [(''nifar'', JNum 5), (''afia'', JNum 0), (''sijil'', JNum 0),
                               (''naim'', JNum 0)]),
           (''comment'', JStr []), (''createdAt'', JDate 1), (''lastModifiedAt'', JDate 7)] \<and>
   four_reviewers
         [(''name'', JStr ''tea''), (''imageUrls'', JArr []),
           (''ratings'', JObj [(''nifar'', JNum 5), (''afia'', JNum 0), (''sijil'', JNum 0),
                               (''naim'', JNum 0)]),
           (''comment'', JStr []), (''createdAt'', JDate 1), (''lastModifiedAt'', JDate 7)]"
proof -
  let ?rs = "[Create example_id 1 [(''name'', JStr ''tea''), (''imageUrls'', JArr [])],
      Update 7 example_id [(''ratings.nifar'', JNum 5)]]"
  have a: "list_all reviewer_request ?rs"
    by (simp add: reviewer_fields_only_def reviewer_path_def reviewers_def)
  have b: "serve_all isValid_hex24 id ?rs Map.empty example_id =
     Some [(''name'', JStr ''tea''), (''imageUrls'', JArr []),
           (''ratings'', JObj [(''nifar'', JNum 5), (''afia'', JNum 0), (''sijil'', JNum 0),
                               (''naim'', JNum 0)]),
           (''comment'', JStr []), (''createdAt'', JDate 1), (''lastModifiedAt'', JDate 7)]"
    by (simp add: run_defs)
  from a b served_four_reviewers [OF a b] show ?thesis by blast
qed

end
